theory Spec2Isabelle
  imports Main
begin

section \<open>JavaScript values and containers used by the adapter\<close>

text \<open>
  The development embeds \<^verbatim>\<open>packages/jupyterlab-lsp/src/adapters/adapter.ts\<close>: the
  class \<^verbatim>\<open>WidgetAdapter\<close> and the module constant \<^verbatim>\<open>mime_type_language_map\<close>.

  A method that can throw returns a sum: \<open>Inl e\<close> is the exception \<open>e\<close> (for an
  \<^verbatim>\<open>async\<close> method: the rejection of the promise it returns), \<open>Inr v\<close> the value.
\<close>

datatype Error =
    TypeError          \<comment> \<open>a property read or a call on \<^verbatim>\<open>null\<close> or \<^verbatim>\<open>undefined\<close>\<close>
  | Failure string     \<comment> \<open>the rejection reason of a promise of a collaborator\<close>

subsection \<open>\<^verbatim>\<open>Map\<close>: entries in insertion order, one entry per key\<close>

text \<open>
  A JavaScript \<^verbatim>\<open>Map\<close> is the list of its entries in insertion order.
  \<^verbatim>\<open>set\<close> on a key that is present replaces the value where the entry stands, on a
  new key appends the entry; \<^verbatim>\<open>delete\<close> removes the entry of the key;
  \<^verbatim>\<open>get\<close> is \<^const>\<open>map_of\<close>; \<^verbatim>\<open>values()\<close> lists the values in entry order.
\<close>

fun Map_set :: "'k \<Rightarrow> 'v \<Rightarrow> ('k \<times> 'v) list \<Rightarrow> ('k \<times> 'v) list" where
  "Map_set k v [] = [(k, v)]"
| "Map_set k v (e # es) = (if fst e = k then (k, v) # es else e # Map_set k v es)"

fun Map_delete :: "'k \<Rightarrow> ('k \<times> 'v) list \<Rightarrow> ('k \<times> 'v) list" where
  "Map_delete k [] = []"
| "Map_delete k (e # es) = (if fst e = k then Map_delete k es else e # Map_delete k es)"

definition Map_values :: "('k \<times> 'v) list \<Rightarrow> 'v list" where
  "Map_values es = map snd es"

subsection \<open>Strings\<close>

text \<open>
  \<^verbatim>\<open>s.split(c)\<close> for a one-character separator: the pieces between the occurrences of
  \<open>c\<close>; a string without \<open>c\<close> (the empty string too) gives the one-element array of
  itself.
\<close>

fun js_split :: "char \<Rightarrow> string \<Rightarrow> string list" where
  "js_split c [] = [[]]"
| "js_split c (x # xs) =
     (if x = c then [] # js_split c xs
      else (case js_split c xs of
              [] \<Rightarrow> [[x]]
            | p # ps \<Rightarrow> (x # p) # ps))"

definition startsWith :: "string \<Rightarrow> string \<Rightarrow> bool" where
  "startsWith s p = (take (length p) s = p)"

definition substr :: "string \<Rightarrow> nat \<Rightarrow> string" where
  "substr s n = drop n s"

section \<open>The language of a mime type\<close>

definition mime_type_language_map :: "(string \<times> string) list" where
  "mime_type_language_map =
     [(''text/x-rsrc'', ''r''),
      (''text/x-r-source'', ''r''),
      (''text/x-ipython'', ''python'')]"

text \<open>
  The getter \<^verbatim>\<open>language\<close>, as a function of what the abstract getter
  \<^verbatim>\<open>mime_type\<close> returns. The destructuring \<^verbatim>\<open>[type, subtype] = a.split('/')\<close>
  binds \<^verbatim>\<open>subtype\<close> to \<^verbatim>\<open>undefined\<close> when the array has one element, and
  \<^verbatim>\<open>subtype.startsWith\<close> then throws a TypeError.
\<close>

definition language :: "string \<Rightarrow> Error + string" where
  "language mime_type =
     (case map_of mime_type_language_map mime_type of
        Some l \<Rightarrow> Inr l
      | None \<Rightarrow>
          (case js_split CHR '';'' mime_type of
             [] \<Rightarrow> Inl TypeError
           | without_parameters # _ \<Rightarrow>
               (case js_split CHR ''/'' without_parameters of
                  [] \<Rightarrow> Inr mime_type
                | [type] \<Rightarrow>
                    if type = ''application'' \<or> type = ''text'' then Inl TypeError
                    else Inr mime_type
                | type # subtype # _ \<Rightarrow>
                    if type = ''application'' \<or> type = ''text'' then
                      (if startsWith subtype ''x-'' then Inr (substr subtype 2)
                       else Inr subtype)
                    else Inr mime_type)))"

section \<open>The objects the adapter holds\<close>

text \<open>
  Objects are compared by reference (\<^verbatim>\<open>!==\<close>), so each carries the reference it
  was allocated at. A \<^verbatim>\<open>VirtualDocument\<close> is kept with the attributes the adapter
  reads and that do not change while the document lives; its \<^verbatim>\<open>value\<close> and
  \<^verbatim>\<open>document_info\<close> change with every recomputation and are read at the moment of a
  call, so a call that passes them is recorded with the document they are read from.
\<close>

record VirtualDocument =
  vd_ref :: nat
  id_path :: string
  path :: string
  vd_language :: string

record LSPConnection =
  conn_ref :: nat
  isReady :: bool

text \<open>
  An \<^verbatim>\<open>EditorAdapter\<close> is the feature-integration bundle of one document: the
  integrations of \<open>ea_features\<close>, each constructed with the connection
  \<open>ea_connection\<close>.
\<close>

record EditorAdapter =
  ea_ref :: nat
  ea_virtual_document :: VirtualDocument
  ea_connection :: "LSPConnection option"
  ea_features :: "string list"

record VirtualEditor =
  virtual_document :: VirtualDocument
  editor_name :: string

text \<open>
  The registry of the connection manager, as the adapter finds it when it reads it. The
  manager's own updates of it are the manager's; the adapter's calls on the manager are
  recorded.
\<close>

record DocumentConnectionManager =
  connections :: "(string \<times> LSPConnection) list"

definition same_object :: "VirtualDocument \<Rightarrow> VirtualDocument \<Rightarrow> bool" where
  "same_object a b = (vd_ref a = vd_ref b)"

datatype SaveState = SaveStarted | SaveFailed | SaveCompleted

text \<open>
  The fields of \<^verbatim>\<open>WidgetAdapter\<close>. \<open>next_ref\<close> is not a field of the class: it is
  the reference the next \<^verbatim>\<open>new\<close> returns.
\<close>

record WidgetAdapter =
  adapters :: "(string \<times> EditorAdapter) list"
  isConnected :: bool
  connection_manager :: "DocumentConnectionManager option"
  isDisposed :: bool
  app :: "nat option"
  widget :: "nat option"
  virtual_editor :: "VirtualEditor option"
  update_finished :: "(Error + unit) option"
  next_ref :: nat

subsection \<open>Calls on collaborators\<close>

text \<open>
  Every call the adapter makes on an object it does not implement (the console, a signal,
  the connection manager, a connection, an update manager, a feature-integration bundle,
  the virtual editor) is recorded, in order. The collaborators are taken not to throw and
  not to call back into the adapter while they run.
\<close>

datatype Signal =
    Widget_saveState
  | Manager_closed
  | Widget_disposed
  | Model_contentChanged
  | Document_changed VirtualDocument
  | Document_foreign_document_opened VirtualDocument
  | Document_foreign_document_closed VirtualDocument

datatype Slot =
    Slot_on_save_state
  | Slot_on_connection_closed
  | Slot_dispose
  | Slot_onContentChanged
  | Slot_document_changed
  | Slot_on_foreign_document_opened
  | Slot_on_foreign_document_closed

datatype Event =
    ConsoleLog "string list"
  | ConsoleWarn "string list"
  | ConsoleError "string list"
  | ConsoleWarnCaught Error
      \<comment> \<open>\<^verbatim>\<open>.catch(console.warn)\<close> on a rejection\<close>
  | SignalConnect Signal Slot
  | SignalDisconnect Signal Slot
  | Emit_adapterConnected VirtualDocument "LSPConnection option"
  | CM_connect VirtualDocument string string
      \<comment> \<open>\<^verbatim>\<open>connection_manager.connect({virtual_document, language, document_path})\<close>\<close>
  | CM_unregister_document VirtualDocument
  | CM_disconnect_document_signals VirtualDocument
  | SendOpenWhenReady LSPConnection VirtualDocument
      \<comment> \<open>\<^verbatim>\<open>connection.sendOpenWhenReady(d.document_info)\<close>\<close>
  | SendFullTextChange LSPConnection VirtualDocument
      \<comment> \<open>\<^verbatim>\<open>connection.sendFullTextChange(d.value, d.document_info)\<close>\<close>
  | SendSaved LSPConnection VirtualDocument
      \<comment> \<open>\<^verbatim>\<open>connection.sendSaved(d.document_info)\<close>\<close>
  | New_VirtualDocument VirtualDocument
  | New_VirtualEditor VirtualEditor
  | New_EditorAdapter EditorAdapter
  | EditorAdapter_dispose EditorAdapter
  | VirtualEditor_dispose VirtualEditor
  | UM_update_documents VirtualDocument "(nat \<times> string) list"
      \<comment> \<open>\<^verbatim>\<open>d.update_manager.update_documents(blocks)\<close>\<close>
  | UM_with_update_lock_updateAfterChange VirtualDocument EditorAdapter
      \<comment> \<open>\<^verbatim>\<open>d.update_manager.with_update_lock(async () => { await a.updateAfterChange(); })\<close>\<close>

subsection \<open>What the adapter is given\<close>

text \<open>
  The abstract members of the class, the extension's managers and the outcomes of the
  promises the adapter awaits. An \<^verbatim>\<open>async\<close> method is the sequence of its
  continuations, run one after the other; a promise of a collaborator is given by the
  outcome it settles with.
\<close>

record Env =
  document_path :: string
  editors :: "(nat \<times> string) list"
    \<comment> \<open>the getter \<^verbatim>\<open>editors\<close>, each with \<^verbatim>\<open>virtual_editor.get_editor_value\<close> of it\<close>
  feature_manager_features :: "string list"
  editorIntegrationFactory :: "string \<Rightarrow> string \<Rightarrow> bool"
    \<comment> \<open>whether the feature has a constructor registered for the editor name\<close>
  findBestImplementation :: "string option"
    \<comment> \<open>the editor name of \<^verbatim>\<open>editor_type_manager.findBestImplementation(editors)\<close>\<close>
  new_document :: VirtualDocument
  cm_connect :: "VirtualDocument \<Rightarrow> Error + LSPConnection option"
    \<comment> \<open>how the promise of \<^verbatim>\<open>connection_manager.connect\<close> settles\<close>
  um_update_documents :: "(nat \<times> string) list \<Rightarrow> Error + unit"
    \<comment> \<open>how the promise of \<^verbatim>\<open>update_manager.update_documents\<close> settles\<close>

section \<open>The methods of \<^verbatim>\<open>WidgetAdapter\<close>\<close>

text \<open>Each method returns its result, the adapter after it and the calls it made.\<close>

type_synonym 'a outcome = "(Error + 'a) \<times> WidgetAdapter \<times> Event list"

definition constructor :: "DocumentConnectionManager \<Rightarrow> nat \<Rightarrow> nat \<Rightarrow> nat \<Rightarrow> WidgetAdapter \<times> Event list" where
  "constructor manager the_app the_widget first_ref =
     (\<lparr>adapters = [], isConnected = False, connection_manager = Some manager,
       isDisposed = False, app = Some the_app, widget = Some the_widget,
       virtual_editor = None, update_finished = None, next_ref = first_ref\<rparr>,
      [SignalConnect Widget_saveState Slot_on_save_state,
       SignalConnect Manager_closed Slot_on_connection_closed,
       SignalConnect Widget_disposed Slot_dispose])"

definition disconnect_adapter :: "WidgetAdapter \<Rightarrow> VirtualDocument \<Rightarrow> WidgetAdapter \<times> Event list" where
  "disconnect_adapter s virtual_document' =
     (let adapter = map_of (adapters s) (id_path virtual_document')
      in (s\<lparr>adapters := Map_delete (id_path virtual_document') (adapters s)\<rparr>,
          (case adapter of None \<Rightarrow> [] | Some a \<Rightarrow> [EditorAdapter_dispose a])))"

definition dispose :: "WidgetAdapter \<Rightarrow> unit outcome" where
  "dispose s =
     (if isDisposed s then (Inr (), s, [])
      else
        let (s1, ev1) = (case virtual_editor s of
                           None \<Rightarrow> (s, [])
                         | Some ve \<Rightarrow> disconnect_adapter s (virtual_document ve))
        in case widget s1 of
             None \<Rightarrow> (Inl TypeError, s1, ev1)
           | Some w \<Rightarrow>
              (case connection_manager s1 of
                 None \<Rightarrow>
                   (Inl TypeError, s1,
                    ev1 @ [SignalDisconnect Widget_saveState Slot_on_save_state])
               | Some cm \<Rightarrow>
                   let ev2 = [SignalDisconnect Widget_saveState Slot_on_save_state,
                              SignalDisconnect Manager_closed Slot_on_connection_closed,
                              SignalDisconnect Widget_disposed Slot_dispose,
                              SignalDisconnect Model_contentChanged Slot_onContentChanged];
                       ev3 = map EditorAdapter_dispose (Map_values (adapters s1));
                       s2 = s1\<lparr>adapters := []\<rparr>
                   in (case virtual_editor s2 of
                         None \<Rightarrow> (Inl TypeError, s2, ev1 @ ev2 @ ev3)
                       | Some ve \<Rightarrow>
                           (Inr (),
                            s2\<lparr>virtual_editor := None, app := None, widget := None,
                               connection_manager := None, isDisposed := True\<rparr>,
                            ev1 @ ev2 @ ev3 @
                            [CM_disconnect_document_signals (virtual_document ve),
                             VirtualEditor_dispose ve]))))"

definition on_connection_closed :: "WidgetAdapter \<Rightarrow> VirtualDocument \<Rightarrow> unit outcome" where
  "on_connection_closed s virtual_document' =
     (let ev = [ConsoleLog [''LSP: connection closed, disconnecting adapter'',
                            id_path virtual_document']]
      in if (case virtual_editor s of
               None \<Rightarrow> True
             | Some ve \<Rightarrow> \<not> same_object virtual_document' (virtual_document ve))
         then (Inr (), s, ev)
         else (case dispose s of (r, s', ev') \<Rightarrow> (r, s', ev @ ev')))"

text \<open>
  Modelled from the spec: the implementations of the abstract method
  \<^verbatim>\<open>create_virtual_document\<close> ("(re)create virtual document using current path
  and language") are in the subclasses, which are not among the sources. "A new
  VirtualDocument is created": the document it returns has the attributes
  \<open>new_document\<close> and a reference not allocated before.
\<close>

definition create_virtual_document :: "Env \<Rightarrow> WidgetAdapter \<Rightarrow> VirtualDocument \<times> WidgetAdapter" where
  "create_virtual_document env s =
     ((new_document env)\<lparr>vd_ref := next_ref s\<rparr>, s\<lparr>next_ref := Suc (next_ref s)\<rparr>)"

definition on_save_state :: "WidgetAdapter \<Rightarrow> SaveState \<Rightarrow> unit outcome" where
  "on_save_state s state =
     (case virtual_editor s of
        None \<Rightarrow> (Inr (), s, [])
      | Some ve \<Rightarrow>
          if state = SaveCompleted then
            (case connection_manager s of
               None \<Rightarrow> (Inl TypeError, s, [])
             | Some cm \<Rightarrow>
                 (Inr (), s,
                  map (\<lambda>connection. SendSaved connection (virtual_document ve))
                      (Map_values (connections cm))))
          else (Inr (), s, []))"

text \<open>
  \<^verbatim>\<open>update_documents\<close> returns the promise of the update manager, or
  \<^verbatim>\<open>undefined\<close> (\<open>None\<close>) from the bare \<^verbatim>\<open>return\<close> of the disposed branch.
\<close>

definition update_documents :: "Env \<Rightarrow> WidgetAdapter \<Rightarrow> (Error + unit) option outcome" where
  "update_documents env s =
     (if isDisposed s then
        (Inr None, s, [ConsoleWarn [''Cannot update documents: adapter disposed'']])
      else
        (case virtual_editor s of
           None \<Rightarrow> (Inl TypeError, s, [])
         | Some ve \<Rightarrow>
             (Inr (Some (um_update_documents env (editors env))), s,
              [UM_update_documents (virtual_document ve) (editors env)])))"

definition onContentChanged :: "Env \<Rightarrow> WidgetAdapter \<Rightarrow> unit outcome" where
  "onContentChanged env s =
     (case update_documents env s of
        (Inl e, s1, ev) \<Rightarrow> (Inl e, s1, ev)
      | (Inr None, s1, ev) \<Rightarrow> (Inl TypeError, s1, ev)
      | (Inr (Some p), s1, ev) \<Rightarrow>
          (Inr (), s1\<lparr>update_finished := Some (Inr ())\<rparr>,
           ev @ (case p of Inl e \<Rightarrow> [ConsoleWarnCaught e] | Inr _ \<Rightarrow> [])))"

definition document_changed :: "WidgetAdapter \<Rightarrow> VirtualDocument \<Rightarrow> VirtualDocument \<Rightarrow> bool \<Rightarrow> unit outcome" where
  "document_changed s virtual_document' document is_init =
     (if isDisposed s then
        (Inr (), s, [ConsoleWarn [''Cannot swap document: adapter disposed'']])
      else
        (case connection_manager s of
           None \<Rightarrow> (Inl TypeError, s, [])
         | Some cm \<Rightarrow>
             let connection = map_of (connections cm) (id_path virtual_document');
                 adapter = map_of (adapters s) (id_path virtual_document');
                 not_ready = (Inr (), s,
                   [ConsoleLog [''LSP: Skipping document update signal: connection not ready'']])
             in (case connection of
                   None \<Rightarrow> not_ready
                 | Some c \<Rightarrow>
                     if \<not> isReady c then not_ready
                     else
                       (case adapter of
                          None \<Rightarrow>
                            (Inr (), s,
                             [ConsoleLog [''LSP: Skipping document update signal: adapter not ready'']])
                        | Some a \<Rightarrow>
                            let sent = [SendFullTextChange c virtual_document']
                            in if \<not> is_init then
                                 (case virtual_editor s of
                                    None \<Rightarrow> (Inl TypeError, s, sent)
                                  | Some ve \<Rightarrow>
                                      (Inr (), s,
                                       sent @ [UM_with_update_lock_updateAfterChange
                                                 (virtual_document ve) a]))
                               else (Inr (), s, sent)))))"

definition create_adapter :: "Env \<Rightarrow> WidgetAdapter \<Rightarrow> VirtualDocument \<Rightarrow> LSPConnection option \<Rightarrow> string list option \<Rightarrow> EditorAdapter outcome" where
  "create_adapter env s virtual_document' connection features =
     (let features' = (case features of None \<Rightarrow> feature_manager_features env | Some fs \<Rightarrow> fs)
      in if features' \<noteq> [] \<and> virtual_editor s = None then (Inl TypeError, s, [])
         else if \<not> list_all (\<lambda>feature. case virtual_editor s of
                                          None \<Rightarrow> True
                                        | Some ve \<Rightarrow> editorIntegrationFactory env feature (editor_name ve))
                             features'
         then (Inl TypeError, s, [])
         else
           let adapter = \<lparr>ea_ref = next_ref s, ea_virtual_document = virtual_document',
                          ea_connection = connection, ea_features = features'\<rparr>;
               s1 = s\<lparr>next_ref := Suc (next_ref s)\<rparr>;
               ev = [New_EditorAdapter adapter,
                     ConsoleLog [''LSP: Adapter for'', document_path env, ''is ready.'']]
           in (case connection of
                 None \<Rightarrow> (Inl TypeError, s1, ev)
               | Some c \<Rightarrow> (Inr adapter, s1, ev @ [SendOpenWhenReady c virtual_document'])))"

definition connect_adapter :: "Env \<Rightarrow> WidgetAdapter \<Rightarrow> VirtualDocument \<Rightarrow> LSPConnection option \<Rightarrow> string list option \<Rightarrow> EditorAdapter outcome" where
  "connect_adapter env s virtual_document' connection features =
     (case create_adapter env s virtual_document' connection features of
        (Inl e, s1, ev) \<Rightarrow> (Inl e, s1, ev)
      | (Inr adapter, s1, ev) \<Rightarrow>
          (Inr adapter,
           s1\<lparr>adapters := Map_set (id_path virtual_document') adapter (adapters s1)\<rparr>, ev))"

definition on_connected :: "Env \<Rightarrow> WidgetAdapter \<Rightarrow> VirtualDocument \<Rightarrow> LSPConnection option \<Rightarrow> unit outcome" where
  "on_connected env s virtual_document' connection =
     (case connect_adapter env s virtual_document' connection None of
        (Inl e, s1, ev1) \<Rightarrow> (Inl e, s1, ev1)
      | (Inr adapter, s1, ev1) \<Rightarrow>
          let ev2 = ev1 @ [Emit_adapterConnected virtual_document' connection];
              s2 = s1\<lparr>isConnected := True\<rparr>
          in (case update_documents env s2 of
                (Inl e, s3, ev3) \<Rightarrow> (Inl e, s3, ev2 @ ev3)
              | (Inr None, s3, ev3) \<Rightarrow> (Inl TypeError, s3, ev2 @ ev3)
              | (Inr (Some (Inl e)), s3, ev3) \<Rightarrow> (Inl e, s3, ev2 @ ev3)
              | (Inr (Some (Inr _)), s3, ev3) \<Rightarrow>
                  (case document_changed s3 virtual_document' virtual_document' True of
                     (Inl e, s4, ev4) \<Rightarrow> (Inl e, s4, ev2 @ ev3 @ ev4)
                   | (Inr _, s4, ev4) \<Rightarrow>
                       (Inr (), s4,
                        ev2 @ ev3 @ ev4 @
                        [ConsoleLog [''LSP: virtual document(s) for'', document_path env,
                                     ''have been initialized'']]))))"


definition connect :: "Env \<Rightarrow> WidgetAdapter \<Rightarrow> VirtualDocument \<Rightarrow> (LSPConnection option \<times> VirtualDocument) outcome" where
  "connect env s virtual_document' =
     (let ev0 = [ConsoleLog [''LSP: will connect using language: '' @ vd_language virtual_document']]
      in case connection_manager s of
           None \<Rightarrow> (Inl TypeError, s, ev0)
         | Some cm \<Rightarrow>
             let ev1 = ev0 @ [CM_connect virtual_document' (vd_language virtual_document')
                                         (document_path env)]
             in (case cm_connect env virtual_document' of
                   Inl e \<Rightarrow> (Inl e, s, ev1)
                 | Inr connection \<Rightarrow>
                     (case on_connected env s virtual_document' connection of
                        (Inl e, s1, ev2) \<Rightarrow> (Inl e, s1, ev1 @ ev2)
                      | (Inr _, s1, ev2) \<Rightarrow>
                          (Inr (connection, virtual_document'), s1, ev1 @ ev2))))"

definition connect_document :: "Env \<Rightarrow> WidgetAdapter \<Rightarrow> VirtualDocument \<Rightarrow> bool \<Rightarrow> unit outcome" where
  "connect_document env s virtual_document' send_open =
     (let ev0 = [SignalConnect (Document_changed virtual_document') Slot_document_changed,
                 SignalConnect (Document_foreign_document_opened virtual_document')
                               Slot_on_foreign_document_opened]
      in case connect env s virtual_document' of
           (r, s1, ev1) \<Rightarrow>
             let connection_context = (case r of Inl e \<Rightarrow> None | Inr c \<Rightarrow> Some c);
                 ev2 = ev0 @ ev1 @ (case r of Inl e \<Rightarrow> [ConsoleWarnCaught e] | Inr c \<Rightarrow> [])
             in if \<not> send_open then (Inr (), s1, ev2)
                else
                  (case connection_context of
                     Some (Some c, d) \<Rightarrow>
                       (Inr (), s1, ev2 @ [SendOpenWhenReady c virtual_document'])
                   | _ \<Rightarrow>
                       (Inr (), s1,
                        ev2 @ [ConsoleWarn [''Connection for '' @ path virtual_document'
                                            @ '' was not opened'']])))"

definition reload_connection :: "Env \<Rightarrow> WidgetAdapter \<Rightarrow> unit outcome" where
  "reload_connection env s =
     (case virtual_editor s of
        None \<Rightarrow> (Inr (), s, [])
      | Some ve \<Rightarrow>
          (case connection_manager s of
             None \<Rightarrow> (Inl TypeError, s, [])
           | Some cm \<Rightarrow>
               (case create_virtual_document env s of
                  (virtual_document', s1) \<Rightarrow>
                    let s2 = s1\<lparr>virtual_editor := Some (ve\<lparr>virtual_document := virtual_document'\<rparr>)\<rparr>
                    in (case connect_document env s2 virtual_document' True of
                          (r, s3, ev) \<Rightarrow>
                            (Inr (), s3,
                             [CM_unregister_document (virtual_document ve),
                              New_VirtualDocument virtual_document'] @ ev @
                             (case r of Inl e \<Rightarrow> [ConsoleWarnCaught e] | Inr _ \<Rightarrow> []))))))"

definition init_virtual :: "Env \<Rightarrow> WidgetAdapter \<Rightarrow> unit outcome" where
  "init_virtual env s =
     (case create_virtual_document env s of
        (virtual_document', s1) \<Rightarrow>
          (case findBestImplementation env of
             None \<Rightarrow>
               (Inr (), s1,
                [New_VirtualDocument virtual_document',
                 ConsoleError [''Could not initialize a VirtualEditor for adapter: '']])
           | Some name \<Rightarrow>
               let ve = \<lparr>virtual_document = virtual_document', editor_name = name\<rparr>
               in (Inr (), s1\<lparr>virtual_editor := Some ve\<rparr>,
                   [New_VirtualDocument virtual_document', New_VirtualEditor ve])))"

definition on_foreign_document_opened :: "Env \<Rightarrow> WidgetAdapter \<Rightarrow> VirtualDocument \<Rightarrow> unit outcome" where
  "on_foreign_document_opened env s foreign_document =
     (case connect_document env s foreign_document True of
        (Inl e, s1, ev) \<Rightarrow> (Inl e, s1, ev)
      | (Inr _, s1, ev) \<Rightarrow>
          (Inr (), s1,
           ev @ [SignalConnect (Document_foreign_document_closed foreign_document)
                               Slot_on_foreign_document_closed]))"

definition on_foreign_document_closed :: "WidgetAdapter \<Rightarrow> VirtualDocument \<Rightarrow> unit outcome" where
  "on_foreign_document_closed s foreign_document =
     (Inr (), s,
      [SignalDisconnect (Document_foreign_document_closed foreign_document)
                        Slot_on_foreign_document_closed,
       SignalDisconnect (Document_foreign_document_opened foreign_document)
                        Slot_on_foreign_document_opened,
       SignalDisconnect (Document_changed foreign_document) Slot_document_changed])"

definition connect_contentChanged_signal :: "WidgetAdapter \<Rightarrow> unit outcome" where
  "connect_contentChanged_signal s =
     (case widget s of
        None \<Rightarrow> (Inl TypeError, s, [])
      | Some w \<Rightarrow> (Inr (), s, [SignalConnect Model_contentChanged Slot_onContentChanged]))"

section \<open>Vocabulary of the properties\<close>

subsection \<open>The language of a mime type, in the words of its description\<close>

text \<open>
  The mime type without its parameters is the text before the first \<open>;\<close>, its
  top-level type the text before the first \<open>/\<close> of that, and its subtype the text
  between the first \<open>/\<close> and the next one (or the end).
\<close>

definition discard_parameters :: "string \<Rightarrow> string" where
  "discard_parameters m = takeWhile (\<lambda>c. c \<noteq> CHR '';'') m"

definition top_level_type :: "string \<Rightarrow> string" where
  "top_level_type m = takeWhile (\<lambda>c. c \<noteq> CHR ''/'') (discard_parameters m)"

definition has_subtype :: "string \<Rightarrow> bool" where
  "has_subtype m = (CHR ''/'' \<in> set (discard_parameters m))"

definition subtype_of :: "string \<Rightarrow> string" where
  "subtype_of m =
     takeWhile (\<lambda>c. c \<noteq> CHR ''/'')
       (tl (dropWhile (\<lambda>c. c \<noteq> CHR ''/'') (discard_parameters m)))"

definition remove_x_prefix :: "string \<Rightarrow> string" where
  "remove_x_prefix t = (if take 2 t = ''x-'' then drop 2 t else t)"

definition described_language :: "string \<Rightarrow> string" where
  "described_language m =
     (case map_of mime_type_language_map m of
        Some l \<Rightarrow> l
      | None \<Rightarrow>
          if top_level_type m = ''application'' \<or> top_level_type m = ''text''
          then remove_x_prefix (subtype_of m)
          else m)"

subsection \<open>Kinds of calls\<close>

fun is_console :: "Event \<Rightarrow> bool" where
  "is_console (ConsoleLog _) = True"
| "is_console (ConsoleWarn _) = True"
| "is_console (ConsoleError _) = True"
| "is_console (ConsoleWarnCaught _) = True"
| "is_console _ = False"

fun is_full_text_change :: "Event \<Rightarrow> bool" where
  "is_full_text_change (SendFullTextChange _ _) = True"
| "is_full_text_change _ = False"

fun is_feature_refresh :: "Event \<Rightarrow> bool" where
  "is_feature_refresh (UM_with_update_lock_updateAfterChange _ _) = True"
| "is_feature_refresh _ = False"

fun is_open :: "Event \<Rightarrow> bool" where
  "is_open (SendOpenWhenReady _ _) = True"
| "is_open _ = False"

text \<open>
  What a call may notify a server of: an open request is for the document \<open>d\<close> and on
  the connection \<open>conn\<close>, a full-text change is for \<open>d\<close> and on the connection
  \<open>reg\<close>, and nothing is saved. A call that notifies no server passes.
\<close>

fun notification_is :: "LSPConnection option \<Rightarrow> LSPConnection option \<Rightarrow> VirtualDocument \<Rightarrow> Event \<Rightarrow> bool" where
  "notification_is conn reg d (SendOpenWhenReady c x) = (x = d \<and> conn = Some c)"
| "notification_is conn reg d (SendFullTextChange c x) = (x = d \<and> reg = Some c)"
| "notification_is conn reg d (SendSaved c x) = False"
| "notification_is conn reg d _ = True"

text \<open>The connection the manager's \<^verbatim>\<open>connect\<close> resolves with for a document, if any.\<close>

definition acquired :: "Env \<Rightarrow> VirtualDocument \<Rightarrow> LSPConnection option" where
  "acquired env d = (case cm_connect env d of Inl e \<Rightarrow> None | Inr c \<Rightarrow> c)"

text \<open>
  The fields that connecting a document leaves alone; references are only ever allocated.
\<close>

definition frame :: "WidgetAdapter \<Rightarrow> WidgetAdapter \<Rightarrow> bool" where
  "frame s s' =
     (connection_manager s' = connection_manager s \<and> isDisposed s' = isDisposed s \<and>
      virtual_editor s' = virtual_editor s \<and> widget s' = widget s \<and> app s' = app s \<and>
      update_finished s' = update_finished s \<and> next_ref s \<le> next_ref s')"

text \<open>The connection the registry holds for an id_path, if the adapter still has a manager.\<close>

definition registered_connection :: "WidgetAdapter \<Rightarrow> string \<Rightarrow> LSPConnection option" where
  "registered_connection s p =
     (case connection_manager s of None \<Rightarrow> None | Some cm \<Rightarrow> map_of (connections cm) p)"

definition is_root_document :: "WidgetAdapter \<Rightarrow> VirtualDocument \<Rightarrow> bool" where
  "is_root_document s d =
     (case virtual_editor s of None \<Rightarrow> False | Some ve \<Rightarrow> same_object d (virtual_document ve))"

text \<open>The root document of the virtual editor was allocated before the next reference.\<close>

definition root_allocated :: "WidgetAdapter \<Rightarrow> bool" where
  "root_allocated s =
     (case virtual_editor s of
        None \<Rightarrow> True
      | Some ve \<Rightarrow> vd_ref (virtual_document ve) < next_ref s)"

text \<open>The bundle a call disposes, if it is the disposal of one.\<close>

fun disposed_bundle :: "Event \<Rightarrow> EditorAdapter option" where
  "disposed_bundle (EditorAdapter_dispose a) = Some a"
| "disposed_bundle _ = None"



subsection \<open>The bundles of an adapter\<close>

text \<open>
  One entry per id_path, no bundle under two keys, and every bundle allocated before the
  next reference.
\<close>

definition adapters_inv :: "WidgetAdapter \<Rightarrow> bool" where
  "adapters_inv s =
     (distinct (map fst (adapters s)) \<and>
      distinct (map (\<lambda>e. ea_ref (snd e)) (adapters s)) \<and>
      list_all (\<lambda>e. ea_ref (snd e) < next_ref s) (adapters s))"

text \<open>
  The states an adapter can be observed in: the constructor's, and the state after any
  method or any continuation of an \<^verbatim>\<open>async\<close> method, whatever the collaborators
  answer.
\<close>

inductive reachable :: "WidgetAdapter \<Rightarrow> bool" where
  r_constructor: "reachable (fst (constructor manager the_app the_widget first_ref))"
| r_init_virtual: "reachable s \<Longrightarrow> reachable (fst (snd (init_virtual env s)))"
| r_connect_contentChanged_signal:
    "reachable s \<Longrightarrow> reachable (fst (snd (connect_contentChanged_signal s)))"
| r_connect_document:
    "reachable s \<Longrightarrow> reachable (fst (snd (connect_document env s d send_open)))"
| r_connect: "reachable s \<Longrightarrow> reachable (fst (snd (connect env s d)))"
| r_on_connected: "reachable s \<Longrightarrow> reachable (fst (snd (on_connected env s d c)))"
| r_connect_adapter: "reachable s \<Longrightarrow> reachable (fst (snd (connect_adapter env s d c fs)))"
| r_document_changed: "reachable s \<Longrightarrow> reachable (fst (snd (document_changed s d d' i)))"
| r_update_documents: "reachable s \<Longrightarrow> reachable (fst (snd (update_documents env s)))"
| r_onContentChanged: "reachable s \<Longrightarrow> reachable (fst (snd (onContentChanged env s)))"
| r_on_save_state: "reachable s \<Longrightarrow> reachable (fst (snd (on_save_state s st)))"
| r_reload_connection: "reachable s \<Longrightarrow> reachable (fst (snd (reload_connection env s)))"
| r_on_foreign_document_opened:
    "reachable s \<Longrightarrow> reachable (fst (snd (on_foreign_document_opened env s d)))"
| r_on_foreign_document_closed:
    "reachable s \<Longrightarrow> reachable (fst (snd (on_foreign_document_closed s d)))"
| r_on_connection_closed: "reachable s \<Longrightarrow> reachable (fst (snd (on_connection_closed s d)))"
| r_dispose: "reachable s \<Longrightarrow> reachable (fst (snd (dispose s)))"

subsection \<open>A notebook adapter to evaluate on\<close>

definition nb_py :: VirtualDocument where
  "nb_py = \<lparr>vd_ref = 3, id_path = ''nb#py'', path = ''nb.ipynb'', vd_language = ''python''\<rparr>"

definition nb_py_r :: VirtualDocument where
  "nb_py_r = \<lparr>vd_ref = 4, id_path = ''nb#py.r'', path = ''nb.ipynb'', vd_language = ''r''\<rparr>"

definition py_connection :: LSPConnection where
  "py_connection = \<lparr>conn_ref = 100, isReady = True\<rparr>"

definition r_connection :: LSPConnection where
  "r_connection = \<lparr>conn_ref = 101, isReady = False\<rparr>"

definition nb_manager :: DocumentConnectionManager where
  "nb_manager = \<lparr>connections = [(''nb#py'', py_connection), (''nb#py.r'', r_connection)]\<rparr>"

definition nb_env :: Env where
  "nb_env =
     \<lparr>document_path = ''nb.ipynb'',
      editors = [(0, ''x = 1'')],
      feature_manager_features = [''hover''],
      editorIntegrationFactory = (\<lambda>feature name. True),
      findBestImplementation = Some ''CodeMirrorEditor'',
      new_document = nb_py,
      cm_connect = (\<lambda>d. Inr (Some py_connection)),
      um_update_documents = (\<lambda>blocks. Inr ())\<rparr>"

text \<open>The adapter as constructed, before \<^verbatim>\<open>init_virtual\<close> has run.\<close>

definition nb_constructed :: WidgetAdapter where
  "nb_constructed = fst (constructor nb_manager 1 2 3)"

text \<open>The adapter after \<^verbatim>\<open>init_virtual\<close>, and after its root document is connected.\<close>

definition nb_initialized :: WidgetAdapter where
  "nb_initialized = fst (snd (init_virtual nb_env nb_constructed))"

definition nb_connected :: WidgetAdapter where
  "nb_connected = fst (snd (connect_document nb_env nb_initialized nb_py False))"

text \<open>The bundle \<^verbatim>\<open>connect_document\<close> installs for the root document.\<close>

definition nb_bundle :: EditorAdapter where
  "nb_bundle = \<lparr>ea_ref = 4, ea_virtual_document = nb_py, ea_connection = Some py_connection,
                ea_features = [''hover'']\<rparr>"


definition nb_disposed :: WidgetAdapter where
  "nb_disposed = fst (snd (dispose nb_connected))"

text \<open>No language server answers.\<close>

definition no_server_env :: Env where
  "no_server_env = nb_env\<lparr>cm_connect := (\<lambda>d. Inl (Failure ''no server''))\<rparr>"

text \<open>The notebook is renamed.\<close>

definition renamed_connection :: LSPConnection where
  "renamed_connection = \<lparr>conn_ref = 102, isReady = True\<rparr>"

definition renamed_py :: VirtualDocument where
  "renamed_py = \<lparr>vd_ref = 5, id_path = ''renamed#py'', path = ''renamed.ipynb'',
                 vd_language = ''python''\<rparr>"

definition rename_env :: Env where
  "rename_env = nb_env\<lparr>document_path := ''renamed.ipynb'', new_document := renamed_py,
                        cm_connect := (\<lambda>d. Inr (Some renamed_connection))\<rparr>"




text \<open>The notebook is reloaded under its old name: the new root document.\<close>

definition nb_py_reloaded :: VirtualDocument where
  "nb_py_reloaded = nb_py\<lparr>vd_ref := 5\<rparr>"






section \<open>Facts about \<^verbatim>\<open>Map\<close>\<close>




lemma keys_Map_delete: "fst ` set (Map_delete k es) = fst ` set es - {k}"
  by (induction es) auto


lemma set_Map_delete: "set (Map_delete k es) \<subseteq> set es"
  by (induction es) auto




lemma distinct_map_Map_delete:
  "distinct (map f es) \<Longrightarrow> distinct (map f (Map_delete k es))"
proof (induction es)
  case Nil
  show ?case by simp
next
  case (Cons e es)
  have "set (Map_delete k es) \<subseteq> set es" by (rule set_Map_delete)
  with Cons show ?case by auto
qed






lemma deleted_bundle_gone:
  assumes "distinct (map (\<lambda>e. ea_ref (snd e)) es)" "map_of es k = Some a"
  shows "list_all (\<lambda>e. ea_ref (snd e) \<noteq> ea_ref a) (Map_delete k es)"
proof -
  have inj: "inj_on (\<lambda>e. ea_ref (snd e)) (set es)"
    using assms(1) by (simp add: distinct_map)
  have mem: "(k, a) \<in> set es"
    using assms(2) by (auto dest: map_of_SomeD)
  have "ea_ref (snd e) \<noteq> ea_ref a" if "e \<in> set (Map_delete k es)" for e
  proof -
    from that have "e \<in> set es" using set_Map_delete [of k es] by auto
    moreover from that have "fst e \<noteq> k"
      using keys_Map_delete [of k es] by auto
    then have "e \<noteq> (k, a)" by auto
    ultimately show ?thesis
      using inj_onD [OF inj, of e "(k, a)"] mem by auto
  qed
  then show ?thesis by (simp add: list_all_iff)
qed

section \<open>The language getter\<close>

lemma js_split_not_Nil: "js_split c s \<noteq> []"
  by (induction s) (auto split: list.splits)

lemma js_split_unfold:
  "js_split c s =
     takeWhile (\<lambda>x. x \<noteq> c) s #
       (if c \<in> set s then js_split c (tl (dropWhile (\<lambda>x. x \<noteq> c) s)) else [])"
proof (induction s)
  case Nil
  show ?case by simp
next
  case (Cons x xs)
  show ?case
  proof (cases "x = c")
    case True
    then show ?thesis by simp
  next
    case False
    then show ?thesis
      by (subst js_split.simps, subst Cons.IH) simp
  qed
qed

lemma startsWith_x: "startsWith t ''x-'' = (take 2 t = ''x-'')"
  by (simp add: startsWith_def numeral_2_eq_2)

lemma language_no_subtype:
  assumes "map_of mime_type_language_map m = None" "\<not> has_subtype m"
  shows "language m =
           (if top_level_type m = ''application'' \<or> top_level_type m = ''text''
            then Inl TypeError else Inr m)"
proof -
  let ?wp = "takeWhile (\<lambda>c. c \<noteq> CHR '';'') m"
  have s1: "js_split CHR '';'' m =
              ?wp # (if CHR '';'' \<in> set m
                     then js_split CHR '';'' (tl (dropWhile (\<lambda>x. x \<noteq> CHR '';'') m)) else [])"
    by (rule js_split_unfold)
  have "CHR ''/'' \<notin> set ?wp"
    using assms(2) by (simp add: has_subtype_def discard_parameters_def)
  then have s2: "js_split CHR ''/'' ?wp = [takeWhile (\<lambda>c. c \<noteq> CHR ''/'') ?wp]"
    by (subst js_split_unfold) simp
  show ?thesis
    using assms(1)
    unfolding language_def top_level_type_def discard_parameters_def
    by (simp add: s1 s2)
qed

text \<open>
  C9 (amended). For every mime type that is a key of the mime-type map, or has a subtype
  (a \<open>/\<close> before any \<open>;\<close>), or whose top-level type is neither
  \<open>application\<close> nor \<open>text\<close>, the getter returns: the mapped identifier for a
  key of the map; otherwise, after discarding the parameters, the subtype without a
  leading \<open>x-\<close> when the top-level type is \<open>application\<close> or \<open>text\<close>;
  otherwise the mime type unchanged.
\<close>

theorem language_as_described:
  assumes "m \<in> fst ` set mime_type_language_map \<or> has_subtype m \<or>
           (top_level_type m \<noteq> ''application'' \<and> top_level_type m \<noteq> ''text'')"
  shows "language m = Inr (described_language m)"
proof (cases "map_of mime_type_language_map m")
  case (Some l)
  then show ?thesis by (simp add: language_def described_language_def)
next
  case None
  then have notkey: "m \<notin> fst ` set mime_type_language_map"
    by (simp add: map_of_eq_None_iff)
  show ?thesis
  proof (cases "has_subtype m")
    case False
    with assms notkey have "top_level_type m \<noteq> ''application'' \<and> top_level_type m \<noteq> ''text''"
      by blast
    with None False show ?thesis
      by (simp add: language_no_subtype described_language_def)
  next
    case True
    let ?wp = "takeWhile (\<lambda>c. c \<noteq> CHR '';'') m"
    let ?rest = "tl (dropWhile (\<lambda>c. c \<noteq> CHR ''/'') ?wp)"
    have s1: "js_split CHR '';'' m = ?wp # (if CHR '';'' \<in> set m then js_split CHR '';'' (tl (dropWhile (\<lambda>x. x \<noteq> CHR '';'') m)) else [])"
      by (rule js_split_unfold)
    have in_wp: "CHR ''/'' \<in> set ?wp"
      using True by (simp add: has_subtype_def discard_parameters_def)
    have s2: "js_split CHR ''/'' ?wp =
                takeWhile (\<lambda>c. c \<noteq> CHR ''/'') ?wp # js_split CHR ''/'' ?rest"
      by (subst js_split_unfold) (simp add: in_wp)
    have s3: "js_split CHR ''/'' ?rest =
                takeWhile (\<lambda>c. c \<noteq> CHR ''/'') ?rest #
                  (if CHR ''/'' \<in> set ?rest
                   then js_split CHR ''/'' (tl (dropWhile (\<lambda>x. x \<noteq> CHR ''/'') ?rest)) else [])"
      by (rule js_split_unfold)
    show ?thesis
      using None
      unfolding language_def described_language_def top_level_type_def subtype_of_def
        discard_parameters_def remove_x_prefix_def substr_def
      by (simp add: s1 s2 s3 startsWith_x)
  qed
qed

theorem language_as_described_witness:
  "language ''text/x-python; charset=utf-8'' = Inr ''python''
   \<and> language ''application/json'' = Inr ''json''
   \<and> language ''text/x-rsrc'' = Inr ''r''
   \<and> language ''image/png'' = Inr ''image/png''"
proof -
  have a: "language ''text/x-python; charset=utf-8'' = Inr (described_language ''text/x-python; charset=utf-8'')"
    by (rule language_as_described) (simp add: has_subtype_def discard_parameters_def)
  have b: "language ''application/json'' = Inr (described_language ''application/json'')"
    by (rule language_as_described) (simp add: has_subtype_def discard_parameters_def)
  have c: "language ''text/x-rsrc'' = Inr (described_language ''text/x-rsrc'')"
    by (rule language_as_described) (simp add: mime_type_language_map_def)
  have d: "language ''image/png'' = Inr (described_language ''image/png'')"
    by (rule language_as_described) (simp add: has_subtype_def discard_parameters_def)
  have a': "described_language ''text/x-python; charset=utf-8'' = ''python''"
    by (simp add: described_language_def mime_type_language_map_def top_level_type_def
        subtype_of_def discard_parameters_def remove_x_prefix_def)
  have b': "described_language ''application/json'' = ''json''"
    by (simp add: described_language_def mime_type_language_map_def top_level_type_def
        subtype_of_def discard_parameters_def remove_x_prefix_def)
  have c': "described_language ''text/x-rsrc'' = ''r''"
    by (simp add: described_language_def mime_type_language_map_def)
  have d': "described_language ''image/png'' = ''image/png''"
    by (simp add: described_language_def mime_type_language_map_def top_level_type_def
        discard_parameters_def)
  show ?thesis using a b c d a' b' c' d' by simp
qed

text \<open>
  C9 as stated speaks of every mime type string. For \<open>text\<close>, a top-level type
  with no subtype, the getter returns nothing: \<^verbatim>\<open>subtype\<close> is
  \<^verbatim>\<open>undefined\<close> and \<^verbatim>\<open>subtype.startsWith\<close> throws.
\<close>

theorem language_text_counterexample: "language ''text'' = Inl TypeError"
  by (simp add: language_def mime_type_language_map_def)

section \<open>The notebook adapter, evaluated\<close>

lemma nb_constructed_eq:
  "nb_constructed =
     \<lparr>adapters = [], isConnected = False, connection_manager = Some nb_manager,
      isDisposed = False, app = Some 1, widget = Some 2, virtual_editor = None,
      update_finished = None, next_ref = 3\<rparr>"
  by (simp add: nb_constructed_def constructor_def)

lemma nb_initialized_eq:
  "nb_initialized =
     \<lparr>adapters = [], isConnected = False, connection_manager = Some nb_manager,
      isDisposed = False, app = Some 1, widget = Some 2,
      virtual_editor = Some \<lparr>virtual_document = nb_py, editor_name = ''CodeMirrorEditor''\<rparr>,
      update_finished = None, next_ref = 4\<rparr>"
  by (simp add: nb_initialized_def nb_constructed_eq init_virtual_def create_virtual_document_def
      nb_env_def nb_py_def Let_def)

lemma nb_connect_document:
  "connect_document nb_env nb_initialized nb_py False =
     (Inr (),
      \<lparr>adapters = [(''nb#py'', nb_bundle)], isConnected = True,
       connection_manager = Some nb_manager,
       isDisposed = False, app = Some 1, widget = Some 2,
       virtual_editor = Some \<lparr>virtual_document = nb_py, editor_name = ''CodeMirrorEditor''\<rparr>,
       update_finished = None, next_ref = 5\<rparr>,
      [SignalConnect (Document_changed nb_py) Slot_document_changed,
       SignalConnect (Document_foreign_document_opened nb_py) Slot_on_foreign_document_opened,
       ConsoleLog [''LSP: will connect using language: python''],
       CM_connect nb_py ''python'' ''nb.ipynb'',
       New_EditorAdapter nb_bundle,
       ConsoleLog [''LSP: Adapter for'', ''nb.ipynb'', ''is ready.''],
       SendOpenWhenReady py_connection nb_py,
       Emit_adapterConnected nb_py (Some py_connection),
       UM_update_documents nb_py [(0, ''x = 1'')],
       SendFullTextChange py_connection nb_py,
       ConsoleLog [''LSP: virtual document(s) for'', ''nb.ipynb'', ''have been initialized'']])"
  by (simp add: nb_initialized_eq connect_document_def connect_def on_connected_def
      connect_adapter_def create_adapter_def update_documents_def document_changed_def
      nb_env_def nb_manager_def nb_py_def py_connection_def r_connection_def nb_bundle_def
      Let_def)

lemma nb_connected_eq:
  "nb_connected =
     \<lparr>adapters = [(''nb#py'', nb_bundle)], isConnected = True,
      connection_manager = Some nb_manager,
      isDisposed = False, app = Some 1, widget = Some 2,
      virtual_editor = Some \<lparr>virtual_document = nb_py, editor_name = ''CodeMirrorEditor''\<rparr>,
      update_finished = None, next_ref = 5\<rparr>"
  by (simp add: nb_connected_def nb_connect_document)

lemma nb_dispose:
  "dispose nb_connected =
     (Inr (),
      \<lparr>adapters = [], isConnected = True, connection_manager = None, isDisposed = True,
       app = None, widget = None, virtual_editor = None, update_finished = None,
       next_ref = 5\<rparr>,
      [EditorAdapter_dispose nb_bundle,
       SignalDisconnect Widget_saveState Slot_on_save_state,
       SignalDisconnect Manager_closed Slot_on_connection_closed,
       SignalDisconnect Widget_disposed Slot_dispose,
       SignalDisconnect Model_contentChanged Slot_onContentChanged,
       CM_disconnect_document_signals nb_py,
       VirtualEditor_dispose \<lparr>virtual_document = nb_py, editor_name = ''CodeMirrorEditor''\<rparr>])"
  by (simp add: dispose_def nb_connected_eq disconnect_adapter_def Let_def nb_py_def
      Map_values_def)

lemma nb_disposed_eq:
  "nb_disposed =
     \<lparr>adapters = [], isConnected = True, connection_manager = None, isDisposed = True,
      app = None, widget = None, virtual_editor = None, update_finished = None,
      next_ref = 5\<rparr>"
  by (simp add: nb_disposed_def nb_dispose)



section \<open>Content changes\<close>

text \<open>
  C2. Whenever \<^verbatim>\<open>document_changed\<close> is called and the registry holds no connection
  for the changed document's id_path, or one that is not ready, or the adapter has no
  bundle for that id_path, no full-text change is sent and no feature refresh is started:
  the adapter is left as it was, and the only call made is a line on the console. The
  event is dropped, not queued.
\<close>

theorem document_changed_not_ready_is_dropped:
  assumes "(case registered_connection s (id_path d) of None \<Rightarrow> True | Some c \<Rightarrow> \<not> isReady c)
           \<or> map_of (adapters s) (id_path d) = None"
  shows "fst (snd (document_changed s d d' is_init)) = s
         \<and> list_all is_console (snd (snd (document_changed s d d' is_init)))
         \<and> filter is_full_text_change (snd (snd (document_changed s d d' is_init))) = []
         \<and> filter is_feature_refresh (snd (snd (document_changed s d d' is_init))) = []"
  using assms
  by (auto simp: document_changed_def registered_connection_def Let_def split: option.splits)

theorem document_changed_not_ready_is_dropped_witness:
  "document_changed nb_connected nb_py_r nb_py_r False
     = (Inr (), nb_connected,
        [ConsoleLog [''LSP: Skipping document update signal: connection not ready'']])
   \<and> fst (snd (document_changed nb_connected nb_py_r nb_py_r False)) = nb_connected
   \<and> filter is_full_text_change (snd (snd (document_changed nb_connected nb_py_r nb_py_r False))) = []
   \<and> filter is_feature_refresh (snd (snd (document_changed nb_connected nb_py_r nb_py_r False))) = []
   \<and> fst (snd (document_changed nb_initialized nb_py nb_py False)) = nb_initialized
   \<and> filter is_full_text_change (snd (snd (document_changed nb_initialized nb_py nb_py False))) = []"
proof -
  have not_ready: "(case registered_connection nb_connected (id_path nb_py_r) of
                      None \<Rightarrow> True | Some c \<Rightarrow> \<not> isReady c)"
    by (simp add: registered_connection_def nb_connected_eq nb_manager_def nb_py_r_def
        r_connection_def)
  have no_bundle: "map_of (adapters nb_initialized) (id_path nb_py) = None"
    by (simp add: nb_initialized_eq)
  have run: "document_changed nb_connected nb_py_r nb_py_r False
     = (Inr (), nb_connected,
        [ConsoleLog [''LSP: Skipping document update signal: connection not ready'']])"
    by (simp add: document_changed_def nb_connected_eq nb_manager_def nb_py_r_def
        r_connection_def Let_def)
  show ?thesis
    using document_changed_not_ready_is_dropped [of nb_connected nb_py_r nb_py_r False]
      document_changed_not_ready_is_dropped [of nb_initialized nb_py nb_py False]
      not_ready no_bundle run
    by simp
qed










section \<open>Saving\<close>

text \<open>
  C7. On an adapter whose virtual editor is initialized, a save-state event sends the save
  notification if and only if the state is \<open>completed\<close>: then one \<^verbatim>\<open>sendSaved\<close> on
  every connection of the manager's registry, each with the document-info of the root
  virtual document; for any other state nothing is sent. The adapter is left as it was.
\<close>

theorem on_save_state_completed:
  assumes "virtual_editor s = Some ve" "connection_manager s = Some cm"
  shows "on_save_state s st =
           (Inr (), s,
            if st = SaveCompleted
            then map (\<lambda>c. SendSaved c (virtual_document ve)) (Map_values (connections cm))
            else [])"
  using assms by (simp add: on_save_state_def)

theorem on_save_state_completed_witness:
  "on_save_state nb_connected SaveCompleted =
     (Inr (), nb_connected, [SendSaved py_connection nb_py, SendSaved r_connection nb_py])
   \<and> on_save_state nb_connected SaveStarted = (Inr (), nb_connected, [])
   \<and> on_save_state nb_connected SaveFailed = (Inr (), nb_connected, [])"
proof -
  have pre: "virtual_editor nb_connected =
       Some \<lparr>virtual_document = nb_py, editor_name = ''CodeMirrorEditor''\<rparr>"
    "connection_manager nb_connected = Some nb_manager"
    by (simp_all add: nb_connected_eq)
  show ?thesis
    using on_save_state_completed [OF pre, of SaveCompleted]
      on_save_state_completed [OF pre, of SaveStarted]
      on_save_state_completed [OF pre, of SaveFailed]
    by (simp add: Map_values_def nb_manager_def)
qed

section \<open>Disposal\<close>

text \<open>
  C10. When the manager broadcasts that a connection was closed, the adapter is left as it
  was, with only a line on the console, unless the closed document is the very object
  that is the root document of the adapter's virtual editor; for that one the handler
  does what \<^verbatim>\<open>dispose\<close> does.
\<close>

theorem on_connection_closed_other_document:
  "(\<not> is_root_document s d \<longrightarrow>
      on_connection_closed s d =
        (Inr (), s, [ConsoleLog [''LSP: connection closed, disconnecting adapter'', id_path d]]))
   \<and> (is_root_document s d \<longrightarrow>
      on_connection_closed s d =
        (fst (dispose s), fst (snd (dispose s)),
         ConsoleLog [''LSP: connection closed, disconnecting adapter'', id_path d]
           # snd (snd (dispose s))))"
  by (auto simp: on_connection_closed_def is_root_document_def Let_def
      split: option.splits prod.splits)

theorem on_connection_closed_other_document_witness:
  "on_connection_closed nb_connected nb_py_r =
     (Inr (), nb_connected,
      [ConsoleLog [''LSP: connection closed, disconnecting adapter'', ''nb#py.r'']])
   \<and> on_connection_closed nb_connected (nb_py\<lparr>vd_ref := 9\<rparr>) =
     (Inr (), nb_connected,
      [ConsoleLog [''LSP: connection closed, disconnecting adapter'', ''nb#py'']])
   \<and> isDisposed (fst (snd (on_connection_closed nb_connected nb_py)))"
proof -
  have a: "\<not> is_root_document nb_connected nb_py_r"
    "\<not> is_root_document nb_connected (nb_py\<lparr>vd_ref := 9\<rparr>)"
    "is_root_document nb_connected nb_py"
    by (simp_all add: is_root_document_def nb_connected_eq same_object_def nb_py_def nb_py_r_def)
  have b: "isDisposed (fst (snd (dispose nb_connected)))"
    by (simp add: dispose_def nb_connected_eq disconnect_adapter_def Let_def nb_py_def)
  show ?thesis
    using on_connection_closed_other_document [of nb_connected nb_py_r]
      on_connection_closed_other_document [of nb_connected "nb_py\<lparr>vd_ref := 9\<rparr>"]
      on_connection_closed_other_document [of nb_connected nb_py] a b
    by (simp add: nb_py_r_def nb_py_def)
qed

lemma dispose_twice_initialized:
  assumes "virtual_editor s = Some ve" "widget s = Some w" "connection_manager s = Some cm"
  shows "fst (dispose s) = Inr ()
         \<and> isDisposed (fst (snd (dispose s)))
         \<and> dispose (fst (snd (dispose s))) = (Inr (), fst (snd (dispose s)), [])"
  using assms
  by (auto simp: dispose_def disconnect_adapter_def Let_def split: prod.splits)

lemma dispose_disposed: "isDisposed s \<Longrightarrow> dispose s = (Inr (), s, [])"
  by (simp add: dispose_def)

text \<open>A call of \<^verbatim>\<open>dispose\<close> disposes no bundle twice.\<close>

lemma disposed_bundles_map:
  "List.map_filter disposed_bundle (map EditorAdapter_dispose xs) = xs"
  by (induction xs) (simp_all add: List.map_filter_simps)

lemma map_filter_append:
  "List.map_filter f (xs @ ys) = List.map_filter f xs @ List.map_filter f ys"
  by (simp add: List.map_filter_def)

lemma dispose_each_bundle_once:
  assumes "adapters_inv s"
  shows "distinct (map ea_ref (List.map_filter disposed_bundle (snd (snd (dispose s)))))"
proof (cases "isDisposed s")
  case True
  then show ?thesis by (simp add: dispose_def List.map_filter_simps)
next
  case False
  from assms have d2: "distinct (map (\<lambda>e. ea_ref (snd e)) (adapters s))"
    by (simp add: adapters_inv_def)
  have all: "distinct (map ea_ref (Map_values (adapters s)))"
    using d2 by (simp add: Map_values_def comp_def)
  show ?thesis
  proof (cases "virtual_editor s")
    case None
    with False all show ?thesis
      by (auto simp: dispose_def Let_def List.map_filter_simps map_filter_append
          disposed_bundles_map split: option.splits)
  next
    case (Some ve)
    let ?k = "id_path (virtual_document ve)"
    have rest: "distinct (map ea_ref (Map_values (Map_delete ?k (adapters s))))"
      using distinct_map_Map_delete [OF d2, of ?k] by (simp add: Map_values_def comp_def)
    have gone: "map_of (adapters s) ?k = Some a \<Longrightarrow>
                ea_ref a \<notin> ea_ref ` set (Map_values (Map_delete ?k (adapters s)))" for a
      using deleted_bundle_gone [OF d2, of ?k a]
      by (auto simp: Map_values_def list_all_iff)
    show ?thesis
      using False Some rest gone
      by (auto simp: dispose_def disconnect_adapter_def Let_def List.map_filter_simps
          map_filter_append disposed_bundles_map split: option.splits)
  qed
qed

text \<open>
  C1 says that \<^verbatim>\<open>dispose\<close> twice in a row never throws, whatever the state. On the
  adapter as constructed, before \<^verbatim>\<open>init_virtual\<close> has set the virtual editor, the
  first call disconnects the four signals and throws on
  \<^verbatim>\<open>this.virtual_editor.virtual_document\<close>; \<^verbatim>\<open>isDisposed\<close> stays false, so the
  second call does the same again. (On an adapter with a virtual editor the first call
  returns and the second does nothing: \<open>dispose_twice_initialized\<close>.)
\<close>

theorem dispose_before_init_virtual_throws:
  "dispose nb_constructed =
     (Inl TypeError, nb_constructed,
      [SignalDisconnect Widget_saveState Slot_on_save_state,
       SignalDisconnect Manager_closed Slot_on_connection_closed,
       SignalDisconnect Widget_disposed Slot_dispose,
       SignalDisconnect Model_contentChanged Slot_onContentChanged])
   \<and> dispose (fst (snd (dispose nb_constructed))) =
     (Inl TypeError, nb_constructed,
      [SignalDisconnect Widget_saveState Slot_on_save_state,
       SignalDisconnect Manager_closed Slot_on_connection_closed,
       SignalDisconnect Widget_disposed Slot_dispose,
       SignalDisconnect Model_contentChanged Slot_onContentChanged])"
  by (simp add: dispose_def nb_constructed_eq Let_def Map_values_def)

text \<open>
  C5 says that \<^verbatim>\<open>update_documents\<close> on a disposed adapter returns something that
  behaves as a resolved future. It starts no recomputation, but what it returns is
  \<^verbatim>\<open>undefined\<close>: \<^verbatim>\<open>onContentChanged\<close>, which calls \<^verbatim>\<open>.catch\<close> on the result,
  throws a TypeError on a disposed adapter.
\<close>

theorem update_documents_disposed_returns_undefined:
  assumes "isDisposed s"
  shows "update_documents env s =
           (Inr None, s, [ConsoleWarn [''Cannot update documents: adapter disposed'']])
         \<and> onContentChanged env s =
           (Inl TypeError, s, [ConsoleWarn [''Cannot update documents: adapter disposed'']])"
  using assms by (simp add: update_documents_def onContentChanged_def)

theorem update_documents_disposed_returns_undefined_witness:
  "update_documents nb_env nb_disposed =
     (Inr None, nb_disposed, [ConsoleWarn [''Cannot update documents: adapter disposed'']])
   \<and> onContentChanged nb_env nb_disposed =
     (Inl TypeError, nb_disposed, [ConsoleWarn [''Cannot update documents: adapter disposed'']])"
proof -
  have "isDisposed nb_disposed" by (simp add: nb_disposed_eq)
  then show ?thesis by (rule update_documents_disposed_returns_undefined)
qed

section \<open>Connecting a document\<close>

text \<open>
  C4. \<^verbatim>\<open>connect_document\<close> never rejects. When the manager's \<^verbatim>\<open>connect\<close> rejects,
  the rejection is caught and logged, no open request is sent, no bundle is created and
  the adapter is left as it was (with \<open>send_open\<close>, a warning says the connection was
  not opened).
\<close>

theorem connect_document_catches_failed_acquisition:
  "fst (connect_document env s d send_open) = Inr ()
   \<and> (connection_manager s = Some cm \<and> cm_connect env d = Inl e \<longrightarrow>
        connect_document env s d send_open =
          (Inr (), s,
           [SignalConnect (Document_changed d) Slot_document_changed,
            SignalConnect (Document_foreign_document_opened d) Slot_on_foreign_document_opened,
            ConsoleLog [''LSP: will connect using language: '' @ vd_language d],
            CM_connect d (vd_language d) (document_path env),
            ConsoleWarnCaught e] @
           (if send_open
            then [ConsoleWarn [''Connection for '' @ path d @ '' was not opened'']]
            else [])))"
proof (intro conjI impI)
  show "fst (connect_document env s d send_open) = Inr ()"
    by (auto simp: connect_document_def Let_def split: prod.splits sum.splits option.splits)
next
  assume "connection_manager s = Some cm \<and> cm_connect env d = Inl e"
  then show "connect_document env s d send_open =
          (Inr (), s,
           [SignalConnect (Document_changed d) Slot_document_changed,
            SignalConnect (Document_foreign_document_opened d) Slot_on_foreign_document_opened,
            ConsoleLog [''LSP: will connect using language: '' @ vd_language d],
            CM_connect d (vd_language d) (document_path env),
            ConsoleWarnCaught e] @
           (if send_open
            then [ConsoleWarn [''Connection for '' @ path d @ '' was not opened'']]
            else []))"
    by (simp add: connect_document_def connect_def Let_def)
qed

theorem connect_document_catches_failed_acquisition_witness:
  "connect_document no_server_env nb_initialized nb_py True =
     (Inr (), nb_initialized,
      [SignalConnect (Document_changed nb_py) Slot_document_changed,
       SignalConnect (Document_foreign_document_opened nb_py) Slot_on_foreign_document_opened,
       ConsoleLog [''LSP: will connect using language: python''],
       CM_connect nb_py ''python'' ''nb.ipynb'',
       ConsoleWarnCaught (Failure ''no server''),
       ConsoleWarn [''Connection for nb.ipynb was not opened'']])"
proof -
  have pre: "connection_manager nb_initialized = Some nb_manager
             \<and> cm_connect no_server_env nb_py = Inl (Failure ''no server'')"
    by (simp add: nb_initialized_eq no_server_env_def)
  show ?thesis
    using connect_document_catches_failed_acquisition
      [of no_server_env nb_initialized nb_py True nb_manager "Failure ''no server''"] pre
    by (simp add: no_server_env_def nb_env_def nb_py_def)
qed

lemma frame_refl: "frame s s"
  by (simp add: frame_def)

lemma create_adapter_frame:
  "frame s (fst (snd (create_adapter env s d conn fs)))
   \<and> adapters (fst (snd (create_adapter env s d conn fs))) = adapters s
   \<and> isConnected (fst (snd (create_adapter env s d conn fs))) = isConnected s
   \<and> list_all (notification_is conn reg d) (snd (snd (create_adapter env s d conn fs)))"
  by (auto simp: create_adapter_def frame_def Let_def split: option.splits)

lemma connect_adapter_frame:
  "frame s (fst (snd (connect_adapter env s d conn fs)))
   \<and> list_all (notification_is conn reg d) (snd (snd (connect_adapter env s d conn fs)))"
proof (cases "create_adapter env s d conn fs")
  case (fields r s1 ev)
  with create_adapter_frame [of s env d conn fs reg] show ?thesis
    by (cases r) (auto simp: connect_adapter_def frame_def)
qed

lemma update_documents_same: "fst (snd (update_documents env s)) = s"
  by (simp add: update_documents_def split: option.splits)

lemma update_documents_notifies_nothing:
  "list_all (notification_is conn reg d) (snd (snd (update_documents env s)))"
  by (simp add: update_documents_def split: option.splits)

lemma document_changed_same: "fst (snd (document_changed s d d' i)) = s"
  by (simp add: document_changed_def Let_def split: option.splits)

lemma document_changed_notifies:
  "list_all (notification_is conn (registered_connection s (id_path d)) d)
            (snd (snd (document_changed s d d' i)))"
  by (simp add: document_changed_def registered_connection_def Let_def split: option.splits)

lemma registered_connection_frame:
  "frame s s' \<Longrightarrow> registered_connection s' p = registered_connection s p"
  by (simp add: frame_def registered_connection_def)

lemma on_connected_frame:
  "frame s (fst (snd (on_connected env s d conn)))
   \<and> list_all (notification_is conn (registered_connection s (id_path d)) d)
               (snd (snd (on_connected env s d conn)))"
proof (cases "connect_adapter env s d conn None")
  case ca: (fields r s1 ev1)
  let ?reg = "registered_connection s (id_path d)"
  have f1: "frame s s1" and o1: "list_all (notification_is conn ?reg d) ev1"
    using connect_adapter_frame [of s env d conn None ?reg] ca by simp_all
  show ?thesis
  proof (cases r)
    case (Inl e)
    with ca f1 o1 show ?thesis by (simp add: on_connected_def)
  next
    case (Inr a)
    let ?s2 = "s1\<lparr>isConnected := True\<rparr>"
    have f2: "frame s ?s2" using f1 by (simp add: frame_def)
    have reg2: "registered_connection ?s2 (id_path d) = ?reg"
      using f2 by (rule registered_connection_frame)
    obtain r3 ev3 where ud: "update_documents env ?s2 = (r3, ?s2, ev3)"
      using update_documents_same [of env ?s2] by (cases "update_documents env ?s2") auto
    have o3: "list_all (notification_is conn ?reg d) ev3"
      using update_documents_notifies_nothing [of conn ?reg d env ?s2] ud by simp
    obtain r4 ev4 where dc: "document_changed ?s2 d d True = (r4, ?s2, ev4)"
      using document_changed_same [of ?s2 d d True]
      by (cases "document_changed ?s2 d d True") auto
    have o4: "list_all (notification_is conn ?reg d) ev4"
      using document_changed_notifies [of conn ?s2 d d True] dc reg2 by simp
    show ?thesis
      using ca Inr ud dc f2 o1 o3 o4
      by (auto simp: on_connected_def Let_def split: sum.splits option.splits)
  qed
qed

lemma connect_frame:
  assumes "connection_manager s = Some cm"
  shows "\<exists>r s' rest.
           connect env s d =
             (r, s',
              [ConsoleLog [''LSP: will connect using language: '' @ vd_language d],
               CM_connect d (vd_language d) (document_path env)] @ rest)
           \<and> frame s s'
           \<and> list_all (notification_is (acquired env d) (registered_connection s (id_path d)) d)
                       rest
           \<and> (\<forall>c x. r = Inr (c, x) \<longrightarrow> c = acquired env d)"
proof (cases "cm_connect env d")
  case (Inl e)
  with assms show ?thesis by (simp add: connect_def frame_refl)
next
  case (Inr conn)
  then have acq: "acquired env d = conn" by (simp add: acquired_def)
  obtain r s1 ev where oc: "on_connected env s d conn = (r, s1, ev)"
    by (cases "on_connected env s d conn") auto
  have "frame s s1"
    "list_all (notification_is conn (registered_connection s (id_path d)) d) ev"
    using on_connected_frame [of s env d conn] oc by simp_all
  with assms Inr oc acq show ?thesis
    by (cases r) (simp_all add: connect_def)
qed

lemma connect_document_frame:
  assumes "connection_manager s = Some cm"
  shows "\<exists>s' rest.
           connect_document env s d send_open =
             (Inr (), s',
              [SignalConnect (Document_changed d) Slot_document_changed,
               SignalConnect (Document_foreign_document_opened d) Slot_on_foreign_document_opened,
               ConsoleLog [''LSP: will connect using language: '' @ vd_language d],
               CM_connect d (vd_language d) (document_path env)] @ rest)
           \<and> frame s s'
           \<and> list_all (notification_is (acquired env d) (registered_connection s (id_path d)) d)
                       rest"
proof -
  obtain r s' rest where c:
    "connect env s d =
       (r, s',
        [ConsoleLog [''LSP: will connect using language: '' @ vd_language d],
         CM_connect d (vd_language d) (document_path env)] @ rest)"
    "frame s s'"
    "list_all (notification_is (acquired env d) (registered_connection s (id_path d)) d) rest"
    "\<forall>c x. r = Inr (c, x) \<longrightarrow> c = acquired env d"
    using connect_frame [OF assms, of env d] by blast
  then show ?thesis
    by (cases r) (auto simp: connect_document_def Let_def split: option.splits)
qed

lemma document_changed_init_resolves:
  assumes "\<not> isDisposed s" "connection_manager s = Some cm"
  shows "fst (document_changed s d d' True) = Inr ()
         \<and> filter is_open (snd (snd (document_changed s d d' True))) = []"
  using assms by (simp add: document_changed_def Let_def split: option.splits)

lemma on_connected_opens:
  assumes "\<not> isDisposed s" "connection_manager s = Some cm" "virtual_editor s = Some ve"
    "list_all (\<lambda>f. editorIntegrationFactory env f (editor_name ve)) (feature_manager_features env)"
    "um_update_documents env (editors env) = Inr ()"
  shows "fst (on_connected env s d (Some c0)) = Inr ()
         \<and> filter is_open (snd (snd (on_connected env s d (Some c0)))) = [SendOpenWhenReady c0 d]"
proof -
  let ?a = "\<lparr>ea_ref = next_ref s, ea_virtual_document = d, ea_connection = Some c0,
              ea_features = feature_manager_features env\<rparr>"
  let ?s2 = "s\<lparr>next_ref := Suc (next_ref s), adapters := Map_set (id_path d) ?a (adapters s),
               isConnected := True\<rparr>"
  have ca: "connect_adapter env s d (Some c0) None =
              (Inr ?a, s\<lparr>next_ref := Suc (next_ref s),
                         adapters := Map_set (id_path d) ?a (adapters s)\<rparr>,
               [New_EditorAdapter ?a,
                ConsoleLog [''LSP: Adapter for'', document_path env, ''is ready.''],
                SendOpenWhenReady c0 d])"
    using assms(3,4) by (simp add: connect_adapter_def create_adapter_def Let_def)
  have ud: "update_documents env ?s2 =
              (Inr (Some (Inr ())), ?s2,
               [UM_update_documents (virtual_document ve) (editors env)])"
    using assms(1,3,5) by (simp add: update_documents_def)
  have pre: "\<not> isDisposed ?s2" "connection_manager ?s2 = Some cm"
    using assms(1,2) by simp_all
  obtain ev4 where dc: "document_changed ?s2 d d True = (Inr (), ?s2, ev4)"
    and o4: "filter is_open ev4 = []"
    using document_changed_init_resolves [OF pre, of d d] document_changed_same [of ?s2 d d True]
    by (cases "document_changed ?s2 d d True") auto
  show ?thesis
    by (simp add: on_connected_def ca ud dc o4 Let_def)
qed

section \<open>Reloading the connection\<close>

text \<open>
  In every state the adapter can be observed in, the root document of the virtual editor
  was allocated before the next reference.
\<close>

lemma root_allocated_frame: "root_allocated s \<Longrightarrow> frame s s' \<Longrightarrow> root_allocated s'"
  by (auto simp: root_allocated_def frame_def split: option.splits)

lemma connect_frame_any: "frame s (fst (snd (connect env s d)))"
proof (cases "connection_manager s")
  case None
  then show ?thesis by (simp add: connect_def frame_refl)
next
  case (Some cm)
  obtain r s' rest where
    "connect env s d =
       (r, s',
        [ConsoleLog [''LSP: will connect using language: '' @ vd_language d],
         CM_connect d (vd_language d) (document_path env)] @ rest)"
    "frame s s'"
    using connect_frame [OF Some, of env d] by blast
  then show ?thesis by simp
qed

lemma connect_document_frame_any: "frame s (fst (snd (connect_document env s d send_open)))"
proof -
  obtain r s1 ev where c: "connect env s d = (r, s1, ev)"
    by (cases "connect env s d") auto
  have "frame s s1" using connect_frame_any [of s env d] c by simp
  with c show ?thesis
    by (auto simp: connect_document_def Let_def split: option.splits sum.splits prod.splits)
qed

lemma dispose_root_allocated:
  assumes "root_allocated s"
  shows "root_allocated (fst (snd (dispose s)))"
  using assms
  by (auto simp: dispose_def disconnect_adapter_def Let_def root_allocated_def
      split: option.splits prod.splits)

lemma reload_connection_root_allocated:
  "root_allocated (fst (snd (reload_connection env s)))" if "root_allocated s"
proof (cases "virtual_editor s")
  case None
  with that show ?thesis by (simp add: reload_connection_def)
next
  case (Some ve)
  show ?thesis
  proof (cases "connection_manager s")
    case None
    with Some that show ?thesis by (simp add: reload_connection_def)
  next
    case cm: (Some cm)
    let ?new = "(new_document env)\<lparr>vd_ref := next_ref s\<rparr>"
    let ?s2 = "s\<lparr>next_ref := Suc (next_ref s),
                 virtual_editor := Some (ve\<lparr>virtual_document := ?new\<rparr>)\<rparr>"
    have a: "root_allocated ?s2" by (simp add: root_allocated_def)
    obtain r s3 ev where cd: "connect_document env ?s2 ?new True = (r, s3, ev)"
      by (cases "connect_document env ?s2 ?new True") auto
    have "frame ?s2 s3" using connect_document_frame_any [of ?s2 env ?new True] cd by simp
    with a have "root_allocated s3" by (rule root_allocated_frame)
    with Some cm cd show ?thesis
      by (simp add: reload_connection_def create_virtual_document_def Let_def)
  qed
qed

lemma reachable_root_allocated: "reachable s \<Longrightarrow> root_allocated s"
proof (induction rule: reachable.induct)
  case (r_constructor manager the_app the_widget first_ref)
  show ?case by (simp add: constructor_def root_allocated_def)
next
  case (r_init_virtual s env)
  then show ?case
    by (auto simp: init_virtual_def create_virtual_document_def root_allocated_def Let_def
        split: option.splits)
next
  case (r_connect_contentChanged_signal s)
  then show ?case by (simp add: connect_contentChanged_signal_def split: option.splits)
next
  case (r_connect_document s env d send_open)
  then show ?case using connect_document_frame_any root_allocated_frame by blast
next
  case (r_connect s env d)
  then show ?case using connect_frame_any root_allocated_frame by blast
next
  case (r_on_connected s env d c)
  then show ?case using on_connected_frame root_allocated_frame by blast
next
  case (r_connect_adapter s env d c fs)
  then show ?case using connect_adapter_frame root_allocated_frame by blast
next
  case (r_document_changed s d d' i)
  then show ?case by (simp add: document_changed_same)
next
  case (r_update_documents s env)
  then show ?case by (simp add: update_documents_same)
next
  case (r_onContentChanged s env)
  then show ?case
    by (auto simp: onContentChanged_def update_documents_def root_allocated_def
        split: option.splits sum.splits)
next
  case (r_on_save_state s st)
  then show ?case by (simp add: on_save_state_def split: option.splits)
next
  case (r_reload_connection s env)
  then show ?case by (simp add: reload_connection_root_allocated)
next
  case (r_on_foreign_document_opened s env d)
  obtain r s1 ev where cd: "connect_document env s d True = (r, s1, ev)"
    by (cases "connect_document env s d True") auto
  have "frame s s1" using connect_document_frame_any [of s env d True] cd by simp
  with r_on_foreign_document_opened.IH have "root_allocated s1" by (rule root_allocated_frame)
  with cd show ?case by (cases r) (simp_all add: on_foreign_document_opened_def)
next
  case (r_on_foreign_document_closed s d)
  then show ?case by (simp add: on_foreign_document_closed_def)
next
  case (r_on_connection_closed s d)
  then show ?case
    using dispose_root_allocated [of s]
    by (auto simp: on_connection_closed_def Let_def split: option.splits prod.splits)
next
  case (r_dispose s)
  then show ?case by (simp add: dispose_root_allocated)
qed

lemma registered_connection_fields:
  "registered_connection (s\<lparr>next_ref := n, virtual_editor := v\<rparr>) p = registered_connection s p"
  by (simp add: registered_connection_def)

text \<open>
  C6 (amended). A reload before the virtual editor is initialized does nothing. On an
  initialized adapter (whose root document was allocated before the next reference, as in
  every state the adapter can be observed in) it first unregisters the present virtual
  document from the manager, then creates a new virtual document (another object than the
  present one), makes it the document of the virtual editor and connects it, asking the
  manager for a connection for the new document. Every notification that follows is for
  the new document: an open request on the connection the manager answers with, a
  full-text change on the connection the registry holds for the new id_path; nothing is
  sent for the old document. When the connection is acquired and the bundle created, the
  open request is sent (by the bundle's creation and again by \<^verbatim>\<open>connect_document\<close>,
  called with \<open>send_open\<close>). In whatever state \<^verbatim>\<open>on_connected\<close> runs once the manager
  has answered, its notifications are of that kind. Whether the connection is another
  one than the old document's is the manager's choice.
\<close>

theorem reload_connection_replaces_document:
  "(virtual_editor s = None \<longrightarrow> reload_connection env s = (Inr (), s, []))
   \<and> (let new = fst (create_virtual_document env s) in
       (virtual_editor s = Some ve \<and> connection_manager s = Some cm
          \<and> vd_ref (virtual_document ve) < next_ref s
        \<longrightarrow> \<not> same_object new (virtual_document ve)
            \<and> (\<exists>s' rest.
                  reload_connection env s =
                    (Inr (), s',
                     [CM_unregister_document (virtual_document ve),
                      New_VirtualDocument new,
                      SignalConnect (Document_changed new) Slot_document_changed,
                      SignalConnect (Document_foreign_document_opened new)
                                    Slot_on_foreign_document_opened,
                      ConsoleLog [''LSP: will connect using language: '' @ vd_language new],
                      CM_connect new (vd_language new) (document_path env)] @ rest)
                  \<and> virtual_editor s' = Some (ve\<lparr>virtual_document := new\<rparr>)
                  \<and> list_all (notification_is (acquired env new)
                                               (registered_connection s (id_path new)) new)
                              rest))
       \<and> (virtual_editor s = Some ve \<and> connection_manager s = Some cm \<and> \<not> isDisposed s
            \<and> cm_connect env new = Inr (Some c)
            \<and> list_all (\<lambda>f. editorIntegrationFactory env f (editor_name ve))
                        (feature_manager_features env)
            \<and> um_update_documents env (editors env) = Inr ()
          \<longrightarrow> filter is_open (snd (snd (reload_connection env s)))
                = [SendOpenWhenReady c new, SendOpenWhenReady c new]))
   \<and> list_all (notification_is conn (registered_connection s (id_path d)) d)
               (snd (snd (on_connected env s d conn)))"
proof -
  let ?new = "(new_document env)\<lparr>vd_ref := next_ref s\<rparr>"
  have new: "fst (create_virtual_document env s) = ?new"
    by (simp add: create_virtual_document_def)
  have premature: "virtual_editor s = None \<longrightarrow> reload_connection env s = (Inr (), s, [])"
    by (simp add: reload_connection_def)
  have general: "\<not> same_object ?new (virtual_document ve)
            \<and> (\<exists>s' rest.
                  reload_connection env s =
                    (Inr (), s',
                     [CM_unregister_document (virtual_document ve),
                      New_VirtualDocument ?new,
                      SignalConnect (Document_changed ?new) Slot_document_changed,
                      SignalConnect (Document_foreign_document_opened ?new)
                                    Slot_on_foreign_document_opened,
                      ConsoleLog [''LSP: will connect using language: '' @ vd_language ?new],
                      CM_connect ?new (vd_language ?new) (document_path env)] @ rest)
                  \<and> virtual_editor s' = Some (ve\<lparr>virtual_document := ?new\<rparr>)
                  \<and> list_all (notification_is (acquired env ?new)
                                               (registered_connection s (id_path ?new)) ?new)
                              rest)"
    if h: "virtual_editor s = Some ve \<and> connection_manager s = Some cm
          \<and> vd_ref (virtual_document ve) < next_ref s"
  proof -
    let ?s2 = "s\<lparr>next_ref := Suc (next_ref s),
                 virtual_editor := Some (ve\<lparr>virtual_document := ?new\<rparr>)\<rparr>"
    have cm2: "connection_manager ?s2 = Some cm" using h by simp
    have reg2: "registered_connection ?s2 (id_path ?new) = registered_connection s (id_path ?new)"
      by (rule registered_connection_fields)
    obtain s' rest where cd:
      "connect_document env ?s2 ?new True =
         (Inr (), s',
          [SignalConnect (Document_changed ?new) Slot_document_changed,
           SignalConnect (Document_foreign_document_opened ?new) Slot_on_foreign_document_opened,
           ConsoleLog [''LSP: will connect using language: '' @ vd_language ?new],
           CM_connect ?new (vd_language ?new) (document_path env)] @ rest)"
      "frame ?s2 s'"
      "list_all (notification_is (acquired env ?new)
                                 (registered_connection ?s2 (id_path ?new)) ?new) rest"
      using connect_document_frame [OF cm2, of env ?new True] by blast
    have ve': "virtual_editor s' = Some (ve\<lparr>virtual_document := ?new\<rparr>)"
      using cd(2) by (simp add: frame_def)
    have run: "reload_connection env s =
                 (Inr (), s',
                  [CM_unregister_document (virtual_document ve),
                   New_VirtualDocument ?new,
                   SignalConnect (Document_changed ?new) Slot_document_changed,
                   SignalConnect (Document_foreign_document_opened ?new)
                                 Slot_on_foreign_document_opened,
                   ConsoleLog [''LSP: will connect using language: '' @ vd_language ?new],
                   CM_connect ?new (vd_language ?new) (document_path env)] @ rest)"
      using h cd(1) by (simp add: reload_connection_def create_virtual_document_def)
    have fresh: "\<not> same_object ?new (virtual_document ve)"
      using h by (simp add: same_object_def)
    from fresh run ve' cd(3) reg2 show ?thesis by auto
  qed
  have success: "filter is_open (snd (snd (reload_connection env s)))
                = [SendOpenWhenReady c ?new, SendOpenWhenReady c ?new]"
    if h: "virtual_editor s = Some ve \<and> connection_manager s = Some cm \<and> \<not> isDisposed s
            \<and> cm_connect env ?new = Inr (Some c)
            \<and> list_all (\<lambda>f. editorIntegrationFactory env f (editor_name ve))
                        (feature_manager_features env)
            \<and> um_update_documents env (editors env) = Inr ()"
  proof -
    let ?ve2 = "ve\<lparr>virtual_document := ?new\<rparr>"
    let ?s2 = "s\<lparr>next_ref := Suc (next_ref s), virtual_editor := Some ?ve2\<rparr>"
    have pre: "\<not> isDisposed ?s2" "connection_manager ?s2 = Some cm"
      "virtual_editor ?s2 = Some ?ve2"
      "list_all (\<lambda>f. editorIntegrationFactory env f (editor_name ?ve2))
                (feature_manager_features env)"
      "um_update_documents env (editors env) = Inr ()"
      using h by simp_all
    obtain s3 ev3 where oc: "on_connected env ?s2 ?new (Some c) = (Inr (), s3, ev3)"
      and o3: "filter is_open ev3 = [SendOpenWhenReady c ?new]"
      using on_connected_opens [OF pre, of ?new c]
      by (cases "on_connected env ?s2 ?new (Some c)") auto
    show ?thesis
      using h oc o3
      by (simp add: reload_connection_def create_virtual_document_def connect_document_def
          connect_def Let_def)
  qed
  have resumed: "list_all (notification_is conn (registered_connection s (id_path d)) d)
               (snd (snd (on_connected env s d conn)))"
    using on_connected_frame [of s env d conn] by simp
  show ?thesis
    unfolding Let_def new
    using premature general success resumed by blast
qed

theorem reload_connection_replaces_document_witness:
  "reload_connection rename_env nb_constructed = (Inr (), nb_constructed, [])
   \<and> \<not> same_object renamed_py nb_py
   \<and> take 6 (snd (snd (reload_connection rename_env nb_connected))) =
       [CM_unregister_document nb_py,
        New_VirtualDocument renamed_py,
        SignalConnect (Document_changed renamed_py) Slot_document_changed,
        SignalConnect (Document_foreign_document_opened renamed_py)
                      Slot_on_foreign_document_opened,
        ConsoleLog [''LSP: will connect using language: python''],
        CM_connect renamed_py ''python'' ''renamed.ipynb'']
   \<and> virtual_editor (fst (snd (reload_connection rename_env nb_connected))) =
       Some \<lparr>virtual_document = renamed_py, editor_name = ''CodeMirrorEditor''\<rparr>
   \<and> filter is_open (snd (snd (reload_connection rename_env nb_connected)))
       = [SendOpenWhenReady renamed_connection renamed_py,
          SendOpenWhenReady renamed_connection renamed_py]"
proof -
  let ?ve = "\<lparr>virtual_document = nb_py, editor_name = ''CodeMirrorEditor''\<rparr>"
  have new: "fst (create_virtual_document rename_env nb_connected) = renamed_py"
    by (simp add: create_virtual_document_def rename_env_def renamed_py_def nb_connected_eq)
  have pre0: "virtual_editor nb_constructed = None"
    by (simp add: nb_constructed_eq)
  have pre1: "virtual_editor nb_connected = Some ?ve \<and> connection_manager nb_connected = Some nb_manager
          \<and> vd_ref (virtual_document ?ve) < next_ref nb_connected"
    by (simp add: nb_connected_eq nb_py_def)
  have pre2: "virtual_editor nb_connected = Some ?ve \<and> connection_manager nb_connected = Some nb_manager
            \<and> \<not> isDisposed nb_connected
            \<and> cm_connect rename_env renamed_py = Inr (Some renamed_connection)
            \<and> list_all (\<lambda>f. editorIntegrationFactory rename_env f (editor_name ?ve))
                        (feature_manager_features rename_env)
            \<and> um_update_documents rename_env (editors rename_env) = Inr ()"
    by (simp add: nb_connected_eq rename_env_def nb_env_def)
  have lang: "vd_language renamed_py = ''python''" "document_path rename_env = ''renamed.ipynb''"
    "?ve\<lparr>virtual_document := renamed_py\<rparr> =
       \<lparr>virtual_document = renamed_py, editor_name = ''CodeMirrorEditor''\<rparr>"
    "virtual_document ?ve = nb_py"
    by (simp_all add: renamed_py_def rename_env_def)
  show ?thesis
    using reload_connection_replaces_document
            [where s = nb_constructed and env = rename_env and ve = ?ve and cm = nb_manager
               and c = renamed_connection and conn = None and d = renamed_py]
          reload_connection_replaces_document
            [where s = nb_connected and env = rename_env and ve = ?ve and cm = nb_manager
               and c = renamed_connection and conn = None and d = renamed_py]
          pre0 pre1 pre2
    unfolding Let_def new lang
    by auto
qed

lemma nb_reload:
  "reload_connection nb_env nb_connected =
     (Inr (),
      nb_connected\<lparr>adapters := [(''nb#py'', nb_bundle\<lparr>ea_ref := 6,
                                                        ea_virtual_document := nb_py_reloaded\<rparr>)],
                   virtual_editor := Some \<lparr>virtual_document = nb_py_reloaded,
                                            editor_name = ''CodeMirrorEditor''\<rparr>,
                   next_ref := 7\<rparr>,
      [CM_unregister_document nb_py,
       New_VirtualDocument nb_py_reloaded,
       SignalConnect (Document_changed nb_py_reloaded) Slot_document_changed,
       SignalConnect (Document_foreign_document_opened nb_py_reloaded)
                     Slot_on_foreign_document_opened,
       ConsoleLog [''LSP: will connect using language: python''],
       CM_connect nb_py_reloaded ''python'' ''nb.ipynb'',
       New_EditorAdapter (nb_bundle\<lparr>ea_ref := 6, ea_virtual_document := nb_py_reloaded\<rparr>),
       ConsoleLog [''LSP: Adapter for'', ''nb.ipynb'', ''is ready.''],
       SendOpenWhenReady py_connection nb_py_reloaded,
       Emit_adapterConnected nb_py_reloaded (Some py_connection),
       UM_update_documents nb_py_reloaded [(0, ''x = 1'')],
       SendFullTextChange py_connection nb_py_reloaded,
       ConsoleLog [''LSP: virtual document(s) for'', ''nb.ipynb'', ''have been initialized''],
       SendOpenWhenReady py_connection nb_py_reloaded])"
  by (simp add: reload_connection_def create_virtual_document_def connect_document_def
      connect_def on_connected_def connect_adapter_def create_adapter_def update_documents_def
      document_changed_def nb_connected_eq nb_env_def nb_manager_def nb_py_def
      nb_py_reloaded_def nb_bundle_def py_connection_def r_connection_def Let_def)

text \<open>
  C6 as stated says that the old connection is never reused for the replacement document.
  With a manager that answers with the connection it has for the language, the reload of
  the notebook opens the new root document, and sends its full text, on the connection
  that the old root document was registered with and that its bundle holds.
\<close>

theorem reload_connection_reuses_connection_counterexample:
  "virtual_editor nb_connected =
     Some \<lparr>virtual_document = nb_py, editor_name = ''CodeMirrorEditor''\<rparr>
   \<and> map_of (adapters nb_connected) (id_path nb_py) = Some nb_bundle
   \<and> ea_connection nb_bundle = Some py_connection
   \<and> registered_connection nb_connected (id_path nb_py) = Some py_connection
   \<and> \<not> same_object nb_py_reloaded nb_py
   \<and> virtual_editor (fst (snd (reload_connection nb_env nb_connected))) =
       Some \<lparr>virtual_document = nb_py_reloaded, editor_name = ''CodeMirrorEditor''\<rparr>
   \<and> filter is_open (snd (snd (reload_connection nb_env nb_connected)))
       = [SendOpenWhenReady py_connection nb_py_reloaded,
          SendOpenWhenReady py_connection nb_py_reloaded]
   \<and> filter is_full_text_change (snd (snd (reload_connection nb_env nb_connected)))
       = [SendFullTextChange py_connection nb_py_reloaded]"
  by (simp add: nb_reload)
     (simp add: nb_connected_eq registered_connection_def nb_manager_def nb_py_def
        nb_bundle_def same_object_def nb_py_reloaded_def)

section \<open>One bundle per id_path\<close>





























end
